theory Spec2Isabelle
  imports Complex_Main
begin

section \<open>Python strings and lists as the service uses them\<close>

text \<open>
  Python \<^verbatim>\<open>str\<close> values are modelled as \<^typ>\<open>string\<close>. The three string
  operations the service relies on are the substring test \<^verbatim>\<open>a in b\<close>,
  \<^verbatim>\<open>str.split\<close> with a one-character separator, and the truth value of an
  optional string (\<^verbatim>\<open>not x\<close> holds for \<^verbatim>\<open>None\<close> and for the empty string).
  A character stands for the code point of the same number, so the strings of
  the model are the Python strings whose code points lie below 256.
\<close>

fun starts_with :: "string \<Rightarrow> string \<Rightarrow> bool" where
  "starts_with [] s = True"
| "starts_with (p # ps) [] = False"
| "starts_with (p # ps) (c # cs) = (p = c \<and> starts_with ps cs)"

text \<open>\<^verbatim>\<open>sub in s\<close> on Python strings: \<open>sub\<close> occurs contiguously in \<open>s\<close>.\<close>

fun py_in :: "string \<Rightarrow> string \<Rightarrow> bool" where
  "py_in sub [] = (sub = [])"
| "py_in sub (c # cs) = (starts_with sub (c # cs) \<or> py_in sub cs)"

text \<open>\<^verbatim>\<open>s.split(sep)\<close> for a separator of one character; \<^verbatim>\<open>"".split(",")\<close> is \<^verbatim>\<open>[""]\<close>.\<close>

fun py_split :: "char \<Rightarrow> string \<Rightarrow> string list" where
  "py_split sep [] = [[]]"
| "py_split sep (c # cs) =
     (if c = sep then [] # py_split sep cs
      else (case py_split sep cs of
              [] \<Rightarrow> [[c]]
            | w # ws \<Rightarrow> (c # w) # ws))"

text \<open>The truth value Python gives an \<^verbatim>\<open>Optional[str]\<close>.\<close>

fun truthy :: "string option \<Rightarrow> bool" where
  "truthy None = False"
| "truthy (Some s) = (s \<noteq> [])"

section \<open>Configuration (app/config.py)\<close>

text \<open>
  The process environment is a map from variable names to values, and
  \<^verbatim>\<open>os.getenv(name, default)\<close> reads it. The settings that the request path
  uses are the shared secret and the allowed-domain list.
\<close>

type_synonym environ = "string \<rightharpoonup> string"

definition getenv :: "environ \<Rightarrow> string \<Rightarrow> string \<Rightarrow> string" where
  "getenv env name dflt = (case env name of None \<Rightarrow> dflt | Some v \<Rightarrow> v)"

record Settings =
  API_KEY :: string
  ALLOWED_DOMAINS :: "string list"
  BROWSER_TYPE :: string

definition load_settings :: "environ \<Rightarrow> Settings" where
  "load_settings env =
     \<lparr> API_KEY = getenv env ''API_KEY'' ''change-me-in-production'',
       ALLOWED_DOMAINS =
         py_split CHR '','' (getenv env ''ALLOWED_DOMAINS'' ''easydis.io,www.easydis.io''),
       BROWSER_TYPE = getenv env ''BROWSER_TYPE'' ''chromium'' \<rparr>"

text \<open>
  \<^verbatim>\<open>Settings.is_domain_allowed\<close>: the loop over the configured domains returns
  at the first one that occurs in the URL string.
\<close>

fun domain_loop :: "string list \<Rightarrow> string \<Rightarrow> bool" where
  "domain_loop [] url = False"
| "domain_loop (domain # rest) url = (if py_in domain url then True else domain_loop rest url)"

definition is_domain_allowed :: "Settings \<Rightarrow> string \<Rightarrow> bool" where
  "is_domain_allowed cfg url = domain_loop (ALLOWED_DOMAINS cfg) url"

section \<open>Authentication guard (app/auth.py)\<close>

text \<open>
  An \<^verbatim>\<open>HTTPException\<close> carries a status code and a detail string. The guard
  receives the value of the \<^verbatim>\<open>X-API-Key\<close> header, or \<^verbatim>\<open>None\<close> when the
  request has no such header (the header scheme is declared with
  \<^verbatim>\<open>auto_error=False\<close>).
\<close>

datatype http_exception = HTTPException (status_code: int) (detail: string)

definition verify_api_key :: "Settings \<Rightarrow> string option \<Rightarrow> http_exception + string" where
  "verify_api_key cfg api_key =
     (if \<not> truthy api_key then
        Inl (HTTPException 401 ''Missing API Key. Include X-API-Key header in your request.'')
      else if the api_key \<noteq> API_KEY cfg then
        Inl (HTTPException 403 ''Invalid API Key'')
      else Inr (the api_key))"

section \<open>Request and response models (app/models.py)\<close>

text \<open>
  The body of a screenshot request as it arrives, before validation. An omitted
  field is \<open>None\<close> and takes the model's default. \<open>raw_url\<close> is the string form of
  the URL when the validation library accepts the field as an HTTP(S) URL, and
  \<open>None\<close> when the field is missing or is not such a URL.
\<close>

record raw_body =
  raw_url :: "string option"
  raw_width :: "int option"
  raw_height :: "int option"
  raw_wait_time :: "int option"
  raw_wait_for_selector :: "string option"
  raw_full_page :: "bool option"

record ScreenshotRequest =
  url :: string
  width :: int
  height :: int
  wait_time :: int
  wait_for_selector :: "string option"
  full_page :: bool

text \<open>
  \<^verbatim>\<open>Field(default, ge=lo, le=hi)\<close>: the default when the field is omitted (defaults
  are not validated), the value when it lies within the bounds, and otherwise an
  error naming the field.
\<close>

definition int_field :: "string \<Rightarrow> int option \<Rightarrow> int \<Rightarrow> int \<Rightarrow> int \<Rightarrow> string list + int" where
  "int_field name v dflt lo hi =
     (case v of
        None \<Rightarrow> Inr dflt
      | Some x \<Rightarrow> if lo \<le> x \<and> x \<le> hi then Inr x else Inl [name])"

definition errors_of :: "string list + 'a \<Rightarrow> string list" where
  "errors_of r = (case r of Inl es \<Rightarrow> es | Inr _ \<Rightarrow> [])"

definition validate_request :: "raw_body \<Rightarrow> string list + ScreenshotRequest" where
  "validate_request b =
     (let u = (case raw_url b of None \<Rightarrow> Inl [''url''] | Some s \<Rightarrow> Inr s);
          w = int_field ''width'' (raw_width b) 1920 800 3840;
          h = int_field ''height'' (raw_height b) 1080 600 2160;
          t = int_field ''wait_time'' (raw_wait_time b) 10000 0 60000
      in case (u, w, h, t) of
           (Inr u', Inr w', Inr h', Inr t') \<Rightarrow>
             Inr \<lparr> url = u', width = w', height = h', wait_time = t',
                   wait_for_selector = raw_wait_for_selector b,
                   full_page = (case raw_full_page b of None \<Rightarrow> False | Some f \<Rightarrow> f) \<rparr>
         | _ \<Rightarrow> Inl (errors_of u @ errors_of w @ errors_of h @ errors_of t))"

text \<open>
  The metadata dictionary of a capture result. A successful capture stores five
  keys, a failed one two.
\<close>

datatype metadata =
    SuccessMetadata (capture_time_ms: int) (image_size_bytes: nat) (meta_url: string)
      (dimensions: "int \<times> int") (product_count: "int option")
  | FailureMetadata (capture_time_ms: int) (meta_url: string)

text \<open>
  The dictionary that the capture routine returns: with the keys \<^verbatim>\<open>success\<close>,
  \<^verbatim>\<open>image_base64\<close> and \<^verbatim>\<open>metadata\<close> on success, and \<^verbatim>\<open>success\<close>, \<^verbatim>\<open>error\<close> and
  \<^verbatim>\<open>metadata\<close> on failure.
\<close>

datatype capture_result =
    Success string metadata
  | Failure string metadata

fun get_success :: "capture_result \<Rightarrow> bool" where
  "get_success (Success img m) = True"
| "get_success (Failure err m) = False"

fun get_image_base64 :: "capture_result \<Rightarrow> string option" where
  "get_image_base64 (Success img m) = Some img"
| "get_image_base64 (Failure err m) = None"

fun get_error :: "capture_result \<Rightarrow> string option" where
  "get_error (Success img m) = None"
| "get_error (Failure err m) = Some err"

fun get_metadata :: "capture_result \<Rightarrow> metadata" where
  "get_metadata (Success img m) = m"
| "get_metadata (Failure err m) = m"

record ScreenshotResponse =
  success :: bool
  image_base64 :: "string option"
  metadata :: "metadata option"
  error :: "string option"

section \<open>Library functions used by the capture routine\<close>

text \<open>Bytes are natural numbers below 256. \<^verbatim>\<open>base64.b64encode\<close> with padding.\<close>

definition b64_char :: "nat \<Rightarrow> char" where
  "b64_char n =
     ''ABCDEFGHIJKLMNOPQRSTUVWXYZabcdefghijklmnopqrstuvwxyz0123456789+/'' ! (n mod 64)"

fun b64encode :: "nat list \<Rightarrow> string" where
  "b64encode [] = []"
| "b64encode [a] =
     [b64_char (a div 4), b64_char ((a mod 4) * 16), CHR ''='', CHR ''='']"
| "b64encode [a, b] =
     [b64_char (a div 4), b64_char ((a mod 4) * 16 + b div 16),
      b64_char ((b mod 16) * 4), CHR ''='']"
| "b64encode (a # b # c # rest) =
     b64_char (a div 4) # b64_char ((a mod 4) * 16 + b div 16) #
     b64_char ((b mod 16) * 4 + c div 64) # b64_char (c mod 64) # b64encode rest"

text \<open>
  \<^verbatim>\<open>int(x)\<close> on a float truncates towards zero. Clock readings are modelled as
  real numbers of seconds.
\<close>

definition py_int :: "real \<Rightarrow> int" where
  "py_int x = (if 0 \<le> x then \<lfloor>x\<rfloor> else \<lceil>x\<rceil>)"

text \<open>
  \<^verbatim>\<open>repr\<close> of a string and of a list of strings, which is what an f-string
  interpolates for a list. The backslash and the chosen quote are escaped, tab,
  newline and carriage return have their letter escapes, and every other code
  point that is not printable is written \<^verbatim>\<open>\xhh\<close>. Below 256 the code points
  that are not printable are the control characters 0 to 31 and 127 to 159, the
  no-break space 160 and the soft hyphen 173.
\<close>

definition hex_digit :: "nat \<Rightarrow> char" where
  "hex_digit n = ''0123456789abcdef'' ! (n mod 16)"

definition repr_char :: "char \<Rightarrow> char \<Rightarrow> string" where
  "repr_char quote c =
     (if c = CHR 0x5C then [CHR 0x5C, CHR 0x5C]
      else if c = quote then [CHR 0x5C, quote]
      else if c = CHR 0x09 then [CHR 0x5C, CHR ''t'']
      else if c = CHR 0x0A then [CHR 0x5C, CHR ''n'']
      else if c = CHR 0x0D then [CHR 0x5C, CHR ''r'']
      else if (of_char c :: nat) < 32 \<or> (127 \<le> (of_char c :: nat) \<and> (of_char c :: nat) \<le> 160)
              \<or> (of_char c :: nat) = 173 then
        [CHR 0x5C, CHR ''x'', hex_digit (of_char c div 16), hex_digit (of_char c)]
      else [c])"

definition py_repr_str :: "string \<Rightarrow> string" where
  "py_repr_str s =
     (let quote = (if CHR 0x27 \<in> set s \<and> CHR 0x22 \<notin> set s then CHR 0x22 else CHR 0x27)
      in [quote] @ concat (map (repr_char quote) s) @ [quote])"

fun py_join :: "string \<Rightarrow> string list \<Rightarrow> string" where
  "py_join sep [] = []"
| "py_join sep [x] = x"
| "py_join sep (x # y # ys) = x @ sep @ py_join sep (y # ys)"

definition py_repr_list :: "string list \<Rightarrow> string" where
  "py_repr_list xs = ''['' @ py_join '', '' (map py_repr_str xs) @ '']''"

section \<open>The browser automation driver\<close>

text \<open>
  The capture service drives an external browser through an automation library.
  Its calls are the environment of the program: each one either returns or
  raises, and which of the two is not decided by the service. All the exceptions
  these calls raise are instances of \<^verbatim>\<open>Exception\<close>; an exception carries its class
  and the message that \<^verbatim>\<open>str\<close> gives.
\<close>

datatype exn = Exception string | PlaywrightError string | PlaywrightTimeoutError string

fun str_exn :: "exn \<Rightarrow> string" where
  "str_exn (Exception m) = m"
| "str_exn (PlaywrightError m) = m"
| "str_exn (PlaywrightTimeoutError m) = m"

type_synonym handle = nat

text \<open>
  The behaviour of the environment during one run: for each driver call whether
  it raises, the value it returns, and the two clock readings of the run. The
  outcome of a page call may depend on its argument (the URL, the selector, the
  script, the delay).
\<close>

record driver =
  start_raises :: "exn option"
  launch_raises :: "exn option"
  new_page_raises :: "exn option"
  goto_raises :: "string \<Rightarrow> exn option"
  wait_for_selector_raises :: "string \<Rightarrow> exn option"
  wait_for_timeout_raises :: "int \<Rightarrow> exn option"
  evaluate_result :: "string \<Rightarrow> exn + int"
  screenshot_result :: "bool \<Rightarrow> exn + nat list"
  page_close_raises :: "exn option"
  browser_close_raises :: "exn option"
  stop_raises :: "exn option"
  time_start :: real
  time_end :: real

text \<open>The calls made to the driver, and the entry into the capture routine, in order.\<close>

datatype call =
    CaptureScreenshot string
  | Start
  | Launch
  | NewPage int int
  | Goto handle string
  | WaitForSelector handle string
  | WaitForTimeout handle int
  | Evaluate handle string
  | Screenshot handle bool
  | PageClose handle
  | BrowserClose
  | Stop

text \<open>
  The state of a run. \<open>playwright\<close> and \<open>browser\<close> are the two attributes of the
  \<^verbatim>\<open>ScreenshotService\<close> singleton. The other fields describe the world outside
  it: how many driver processes and browsers were started, which page handles
  are open, the next fresh handle, and the record of the calls made.
\<close>

record session =
  playwright :: "handle option"
  browser :: "handle option"
  drivers_started :: nat
  browsers_launched :: nat
  open_pages :: "handle list"
  next_handle :: handle
  calls :: "call list"

definition new_service :: session where
  "new_service =
     \<lparr> playwright = None, browser = None, drivers_started = 0, browsers_launched = 0,
       open_pages = [], next_handle = 0, calls = [] \<rparr>"

type_synonym 'a act = "session \<Rightarrow> (exn + 'a) \<times> session"

definition log_call :: "call \<Rightarrow> session \<Rightarrow> session" where
  "log_call c s = s\<lparr>calls := calls s @ [c]\<rparr>"

text \<open>Sequencing: an exception of the first action ends the sequence.\<close>

definition and_then :: "'a act \<Rightarrow> ('a \<Rightarrow> 'b act) \<Rightarrow> 'b act" where
  "and_then m f s = (case m s of (Inl e, s1) \<Rightarrow> (Inl e, s1) | (Inr a, s1) \<Rightarrow> f a s1)"

definition playwright_start :: "driver \<Rightarrow> handle act" where
  "playwright_start d s =
     (let s1 = log_call Start s in
      case start_raises d of
        Some e \<Rightarrow> (Inl e, s1)
      | None \<Rightarrow>
          (Inr (next_handle s1),
           s1\<lparr>next_handle := Suc (next_handle s1), drivers_started := Suc (drivers_started s1)\<rparr>))"

definition chromium_launch :: "driver \<Rightarrow> handle act" where
  "chromium_launch d s =
     (let s1 = log_call Launch s in
      case launch_raises d of
        Some e \<Rightarrow> (Inl e, s1)
      | None \<Rightarrow>
          (Inr (next_handle s1),
           s1\<lparr>next_handle := Suc (next_handle s1),
              browsers_launched := Suc (browsers_launched s1)\<rparr>))"

definition browser_new_page :: "driver \<Rightarrow> int \<Rightarrow> int \<Rightarrow> handle act" where
  "browser_new_page d w h s =
     (let s1 = log_call (NewPage w h) s in
      case new_page_raises d of
        Some e \<Rightarrow> (Inl e, s1)
      | None \<Rightarrow>
          (Inr (next_handle s1),
           s1\<lparr>next_handle := Suc (next_handle s1),
              open_pages := open_pages s1 @ [next_handle s1]\<rparr>))"

definition page_goto :: "driver \<Rightarrow> handle \<Rightarrow> string \<Rightarrow> unit act" where
  "page_goto d page u s =
     (let s1 = log_call (Goto page u) s in
      case goto_raises d u of Some e \<Rightarrow> (Inl e, s1) | None \<Rightarrow> (Inr (), s1))"

definition page_wait_for_selector :: "driver \<Rightarrow> handle \<Rightarrow> string \<Rightarrow> unit act" where
  "page_wait_for_selector d page sel s =
     (let s1 = log_call (WaitForSelector page sel) s in
      case wait_for_selector_raises d sel of Some e \<Rightarrow> (Inl e, s1) | None \<Rightarrow> (Inr (), s1))"

definition page_wait_for_timeout :: "driver \<Rightarrow> handle \<Rightarrow> int \<Rightarrow> unit act" where
  "page_wait_for_timeout d page ms s =
     (let s1 = log_call (WaitForTimeout page ms) s in
      case wait_for_timeout_raises d ms of Some e \<Rightarrow> (Inl e, s1) | None \<Rightarrow> (Inr (), s1))"

definition page_evaluate :: "driver \<Rightarrow> handle \<Rightarrow> string \<Rightarrow> int act" where
  "page_evaluate d page script s = (evaluate_result d script, log_call (Evaluate page script) s)"

definition page_screenshot :: "driver \<Rightarrow> handle \<Rightarrow> bool \<Rightarrow> (nat list) act" where
  "page_screenshot d page fp s = (screenshot_result d fp, log_call (Screenshot page fp) s)"

text \<open>Closing a page removes it from the open pages unless the call raises.\<close>

definition page_close :: "driver \<Rightarrow> handle \<Rightarrow> unit act" where
  "page_close d page s =
     (let s1 = log_call (PageClose page) s in
      case page_close_raises d of
        Some e \<Rightarrow> (Inl e, s1)
      | None \<Rightarrow> (Inr (), s1\<lparr>open_pages := removeAll page (open_pages s1)\<rparr>))"

definition browser_close :: "driver \<Rightarrow> unit act" where
  "browser_close d s =
     (let s1 = log_call BrowserClose s in
      case browser_close_raises d of
        Some e \<Rightarrow> (Inl e, s1)
      | None \<Rightarrow> (Inr (), s1\<lparr>open_pages := []\<rparr>))"

definition playwright_stop :: "driver \<Rightarrow> unit act" where
  "playwright_stop d s =
     (let s1 = log_call Stop s in
      case stop_raises d of Some e \<Rightarrow> (Inl e, s1) | None \<Rightarrow> (Inr (), s1))"

section \<open>The screenshot service (app/screenshot.py)\<close>

text \<open>
  \<^verbatim>\<open>ScreenshotService.initialize\<close>: when the \<open>playwright\<close> attribute is unset, start
  the driver, store it, launch the browser and store it. An exception of either
  call leaves the method at once, so a failed launch leaves \<open>playwright\<close> set and
  \<open>browser\<close> unset.
\<close>

definition initialize :: "driver \<Rightarrow> unit act" where
  "initialize d s =
     (if playwright s = None then
        and_then (playwright_start d) (\<lambda>pw s1.
          and_then (chromium_launch d) (\<lambda>b s2.
            (Inr (), s2\<lparr>browser := Some b\<rparr>)) (s1\<lparr>playwright := Some pw\<rparr>)) s
      else (Inr (), s))"

text \<open>\<^verbatim>\<open>ScreenshotService.cleanup\<close>.\<close>

definition cleanup :: "driver \<Rightarrow> unit act" where
  "cleanup d s =
     and_then (\<lambda>s0. if browser s0 \<noteq> None then browser_close d s0 else (Inr (), s0)) (\<lambda>_ s1.
       if playwright s1 \<noteq> None then playwright_stop d s1 else (Inr (), s1)) s"

text \<open>The script that counts the elements matching the selector (an f-string).\<close>

definition count_script :: "string \<Rightarrow> string" where
  "count_script sel =
     ''document.querySelectorAll('' @ [CHR 0x22] @ sel @ [CHR 0x22] @ '').length''"

definition elapsed_ms :: "driver \<Rightarrow> int" where
  "elapsed_ms d = py_int ((time_end d - time_start d) * 1000)"

text \<open>
  The first statements of the \<^verbatim>\<open>try\<close> block of \<^verbatim>\<open>capture_screenshot\<close>, up to the
  assignment of \<open>page\<close>: initialise, check the browser attribute, open a page.
\<close>

definition open_page :: "driver \<Rightarrow> int \<Rightarrow> int \<Rightarrow> handle act" where
  "open_page d w h =
     and_then (initialize d) (\<lambda>_ s1.
       case browser s1 of
         None \<Rightarrow> (Inl (Exception ''Browser not initialized''), s1)
       | Some b \<Rightarrow> browser_new_page d w h s1)"

text \<open>
  The rest of the \<^verbatim>\<open>try\<close> block, with the page open: navigate; wait for the
  selector when one is given, ignoring an exception of that wait; wait
  \<open>wait_time\<close> milliseconds when positive; count the matching elements when a
  selector is given; take the screenshot, encode it, read the clock and build
  the result.
\<close>

definition drive_page ::
  "driver \<Rightarrow> handle \<Rightarrow> string \<Rightarrow> int \<Rightarrow> int \<Rightarrow> int \<Rightarrow> string option \<Rightarrow> bool \<Rightarrow> capture_result act" where
  "drive_page d page u w h wt sel fp =
     and_then (page_goto d page u) (\<lambda>_ s1.
       let s2 = (if truthy sel then snd (page_wait_for_selector d page (the sel) s1) else s1) in
       and_then (\<lambda>s. if wt > 0 then page_wait_for_timeout d page wt s else (Inr (), s)) (\<lambda>_.
         and_then (\<lambda>s. if truthy sel then page_evaluate d page (count_script (the sel)) s
                       else (Inr 0, s)) (\<lambda>count.
           and_then (page_screenshot d page fp) (\<lambda>screenshot_bytes s5.
             (Inr (Success (b64encode screenshot_bytes)
                     (SuccessMetadata (elapsed_ms d) (length screenshot_bytes) u (w, h)
                        (if truthy sel then Some count else None))), s5)))) s2)"

text \<open>
  \<^verbatim>\<open>ScreenshotService.capture_screenshot\<close>. An exception of the \<^verbatim>\<open>try\<close> block
  becomes a failure result. The \<^verbatim>\<open>finally\<close> clause closes the page when one was
  opened; an exception raised there leaves the routine (\<open>Inl\<close>) in place of the
  result.
\<close>

definition failure_result :: "driver \<Rightarrow> string \<Rightarrow> exn \<Rightarrow> capture_result" where
  "failure_result d u e = Failure (str_exn e) (FailureMetadata (elapsed_ms d) u)"

definition capture_screenshot ::
  "driver \<Rightarrow> string \<Rightarrow> int \<Rightarrow> int \<Rightarrow> int \<Rightarrow> string option \<Rightarrow> bool \<Rightarrow> capture_result act" where
  "capture_screenshot d u w h wt sel fp s0 =
     (case open_page d w h (log_call (CaptureScreenshot u) s0) of
        (Inl e, s1) \<Rightarrow> (Inr (failure_result d u e), s1)
      | (Inr page, s1) \<Rightarrow>
          (case drive_page d page u w h wt sel fp s1 of
             (r, s2) \<Rightarrow>
               (case page_close d page s2 of
                  (Inl e, s3) \<Rightarrow> (Inl e, s3)
                | (Inr _, s3) \<Rightarrow>
                    (Inr (case r of Inl e \<Rightarrow> failure_result d u e | Inr ok \<Rightarrow> ok), s3))))"

section \<open>The HTTP layer (app/main.py)\<close>

text \<open>
  What a request to the screenshot endpoint ends in: a response body, an
  \<^verbatim>\<open>HTTPException\<close> with its status, the rejection of the body by validation, or
  another exception leaving the endpoint function.
\<close>

datatype outcome =
    Response ScreenshotResponse
  | Raised http_exception
  | RequestValidationError "string list"
  | Crashed exn

text \<open>The endpoint function \<^verbatim>\<open>take_screenshot\<close>.\<close>

definition take_screenshot ::
  "Settings \<Rightarrow> driver \<Rightarrow> ScreenshotRequest \<Rightarrow> string \<Rightarrow> session \<Rightarrow> outcome \<times> session" where
  "take_screenshot cfg d request api_key s =
     (let url_str = url request in
      if \<not> is_domain_allowed cfg url_str then
        (Raised (HTTPException 403
           (''Domain not allowed. Allowed domains: '' @ py_repr_list (ALLOWED_DOMAINS cfg))), s)
      else
        (case capture_screenshot d url_str (width request) (height request) (wait_time request)
                (wait_for_selector request) (full_page request) s of
           (Inl e, s1) \<Rightarrow> (Crashed e, s1)
         | (Inr (Failure err m), s1) \<Rightarrow> (Raised (HTTPException 500 err), s1)
         | (Inr (Success img m), s1) \<Rightarrow>
             (Response \<lparr> success = True, image_base64 = Some img, metadata = Some m,
                         error = None \<rparr>, s1)))"

text \<open>
  A request to \<^verbatim>\<open>POST /screenshot\<close>: its credential header and its body. The web
  framework resolves the authentication dependency and validates the body
  against the request model, and calls the endpoint function only when both
  pass.
\<close>

record http_request =
  x_api_key :: "string option"
  json_body :: raw_body

definition post_screenshot ::
  "Settings \<Rightarrow> driver \<Rightarrow> http_request \<Rightarrow> session \<Rightarrow> outcome \<times> session" where
  "post_screenshot cfg d rq s =
     (case verify_api_key cfg (x_api_key rq) of
        Inl ex \<Rightarrow> (Raised ex, s)
      | Inr api_key \<Rightarrow>
          (case validate_request (json_body rq) of
             Inl errs \<Rightarrow> (RequestValidationError errs, s)
           | Inr request \<Rightarrow> take_screenshot cfg d request api_key s))"

section \<open>The host of a URL\<close>

text \<open>
  The program never computes the host of a URL; the notion is needed only to
  state what the specification says about hosts. The host is the authority
  component (what lies between \<^verbatim>\<open>://\<close> and the next \<^verbatim>\<open>/\<close>, \<^verbatim>\<open>?\<close> or \<^verbatim>\<open>#\<close>)
  without user information and without port.
\<close>

fun after_scheme :: "string \<Rightarrow> string" where
  "after_scheme (a # b # c # rest) =
     (if a = CHR '':'' \<and> b = CHR ''/'' \<and> c = CHR ''/'' then rest
      else after_scheme (b # c # rest))"
| "after_scheme s = []"

definition url_host :: "string \<Rightarrow> string" where
  "url_host u =
     (let authority =
            takeWhile (\<lambda>c. c \<noteq> CHR ''/'' \<and> c \<noteq> CHR ''?'' \<and> c \<noteq> CHR ''#'') (after_scheme u);
          hostport = rev (takeWhile (\<lambda>c. c \<noteq> CHR ''@'') (rev authority))
      in takeWhile (\<lambda>c. c \<noteq> CHR '':'') hostport)"

section \<open>An environment in which every driver call succeeds\<close>

text \<open>
  The page has three elements for every selector, the screenshot is four bytes,
  and the run takes a second and a half.
\<close>

definition example_driver :: driver where
  "example_driver =
     \<lparr> start_raises = None, launch_raises = None, new_page_raises = None,
       goto_raises = (\<lambda>u. None), wait_for_selector_raises = (\<lambda>sel. None),
       wait_for_timeout_raises = (\<lambda>ms. None),
       evaluate_result = (\<lambda>script. Inr 3),
       screenshot_result = (\<lambda>fp. Inr [137, 80, 78, 71]),
       page_close_raises = None, browser_close_raises = None, stop_raises = None,
       time_start = 100, time_end = 101.5 \<rparr>"

text \<open>Further environments and states used as examples.\<close>

definition unreachable_host_driver :: driver where
  "unreachable_host_driver =
     example_driver\<lparr>goto_raises := (\<lambda>u. Some (PlaywrightError ''net::ERR_NAME_NOT_RESOLVED''))\<rparr>"

definition selector_miss_driver :: driver where
  "selector_miss_driver =
     example_driver\<lparr>wait_for_selector_raises :=
                      (\<lambda>sel. Some (PlaywrightTimeoutError ''Timeout 30000ms exceeded.'')),
                    evaluate_result := (\<lambda>script. Inr 0)\<rparr>"

definition close_fails_driver :: driver where
  "close_fails_driver =
     example_driver\<lparr>page_close_raises := Some (PlaywrightError ''Connection closed'')\<rparr>"

definition busy_service :: session where
  "busy_service =
     \<lparr> playwright = Some 0, browser = Some 1, drivers_started = 1, browsers_launched = 1,
       open_pages = [2], next_handle = 3, calls = [] \<rparr>"

definition crashed_browser_driver :: driver where
  "crashed_browser_driver =
     example_driver\<lparr>new_page_raises :=
                      Some (PlaywrightError ''Target page, context or browser has been closed'')\<rparr>"

section \<open>The first failure of a run, read from the environment\<close>

text \<open>
  These functions describe a run of the capture routine by the behaviour of the
  environment alone, without executing the routine; the theorems below compare
  the routine with them. \<open>first_failure_before_page\<close> is the exception, if any,
  that ends the run before a page is open: from starting the driver or launching
  the browser when the service holds no driver, from the missing browser
  attribute, or from opening the page. \<open>first_failure_on_page\<close> is the exception,
  if any, that ends the work on the open page: from the navigation, from the
  fixed wait when the wait time is positive, from counting the elements when a
  non-empty selector is given, or from the screenshot. The wait for the selector
  is not among them.
\<close>

definition first_failure_before_page :: "driver \<Rightarrow> session \<Rightarrow> exn option" where
  "first_failure_before_page d s =
     (if playwright s = None then
        (case start_raises d of
           Some e \<Rightarrow> Some e
         | None \<Rightarrow> (case launch_raises d of Some e \<Rightarrow> Some e | None \<Rightarrow> new_page_raises d))
      else if browser s = None then Some (Exception ''Browser not initialized'')
      else new_page_raises d)"

definition first_failure_on_page ::
  "driver \<Rightarrow> string \<Rightarrow> int \<Rightarrow> string option \<Rightarrow> bool \<Rightarrow> exn option" where
  "first_failure_on_page d u wt sel fp =
     (case goto_raises d u of
        Some e \<Rightarrow> Some e
      | None \<Rightarrow>
          (case (if wt > 0 then wait_for_timeout_raises d wt else None) of
             Some e \<Rightarrow> Some e
           | None \<Rightarrow>
               (case (if truthy sel then evaluate_result d (count_script (the sel)) else Inr 0) of
                  Inl e \<Rightarrow> Some e
                | Inr _ \<Rightarrow>
                    (case screenshot_result d fp of Inl e \<Rightarrow> Some e | Inr _ \<Rightarrow> None))))"

definition first_failure ::
  "driver \<Rightarrow> session \<Rightarrow> string \<Rightarrow> int \<Rightarrow> string option \<Rightarrow> bool \<Rightarrow> exn option" where
  "first_failure d s u wt sel fp =
     (case first_failure_before_page d s of
        Some e \<Rightarrow> Some e
      | None \<Rightarrow> first_failure_on_page d u wt sel fp)"

text \<open>The state of a run without the record of the calls.\<close>

definition without_calls :: "session \<Rightarrow> session" where
  "without_calls s = s\<lparr>calls := []\<rparr>"

section \<open>Properties of the configuration\<close>

lemma starts_with_iff: "starts_with p s \<longleftrightarrow> (\<exists>r. s = p @ r)"
  by (induction p s rule: starts_with.induct) auto

lemma py_in_iff: "py_in sub s \<longleftrightarrow> (\<exists>pre post. s = pre @ sub @ post)"
proof (induction s)
  case Nil
  then show ?case by auto
next
  case (Cons c cs)
  show ?case
  proof
    assume "py_in sub (c # cs)"
    then consider "starts_with sub (c # cs)" | "py_in sub cs" by auto
    then show "\<exists>pre post. c # cs = pre @ sub @ post"
    proof cases
      case 1
      then obtain r where "c # cs = sub @ r" by (auto simp: starts_with_iff)
      then have "c # cs = [] @ sub @ r" by simp
      then show ?thesis by blast
    next
      case 2
      with Cons obtain pre post where "cs = pre @ sub @ post" by blast
      then have "c # cs = (c # pre) @ sub @ post" by simp
      then show ?thesis by blast
    qed
  next
    assume "\<exists>pre post. c # cs = pre @ sub @ post"
    then obtain pre post where e: "c # cs = pre @ sub @ post" by blast
    show "py_in sub (c # cs)"
    proof (cases pre)
      case Nil
      with e have "starts_with sub (c # cs)" by (auto simp: starts_with_iff)
      then show ?thesis by simp
    next
      case (Cons a pre')
      with e have "cs = pre' @ sub @ post" by simp
      with Cons.IH have "py_in sub cs" by blast
      then show ?thesis by simp
    qed
  qed
qed

lemma domain_loop_iff: "domain_loop ds u \<longleftrightarrow> (\<exists>d \<in> set ds. py_in d u)"
  by (induction ds) auto

section \<open>Claims about the configuration\<close>

text \<open>
  Claim C3. For every URL string and every allowed-domain list, the
  domain-membership predicate is true exactly when some configured domain occurs
  as a substring of the URL string. The match is over the whole URL and not over
  its host: the witness has an allowed URL whose host is foreign and whose path
  holds the domain.
\<close>

theorem is_domain_allowed_iff_substring:
  "is_domain_allowed cfg u \<longleftrightarrow>
     (\<exists>d \<in> set (ALLOWED_DOMAINS cfg). \<exists>pre post. u = pre @ d @ post)"
  by (simp add: is_domain_allowed_def domain_loop_iff py_in_iff)

theorem is_domain_allowed_iff_substring_witness:
  "is_domain_allowed (load_settings Map.empty) ''https://www.easydis.io/screen/1''
   \<and> is_domain_allowed (load_settings Map.empty) ''https://evil.example/easydis.io''
   \<and> \<not> is_domain_allowed (load_settings Map.empty) ''https://evil.example/''"
proof -
  let ?cfg = "load_settings Map.empty"
  have ds: "ALLOWED_DOMAINS ?cfg = [''easydis.io'', ''www.easydis.io'']"
    by (simp add: load_settings_def getenv_def)
  have a: "\<exists>d \<in> set (ALLOWED_DOMAINS ?cfg). \<exists>pre post.
      ''https://www.easydis.io/screen/1'' = pre @ d @ post"
    by (rule bexI [of _ "''easydis.io''"], rule exI [of _ "''https://www.''"],
        rule exI [of _ "''/screen/1''"]) (simp_all add: ds)
  have b: "\<exists>d \<in> set (ALLOWED_DOMAINS ?cfg). \<exists>pre post.
      ''https://evil.example/easydis.io'' = pre @ d @ post"
    by (rule bexI [of _ "''easydis.io''"], rule exI [of _ "''https://evil.example/''"],
        rule exI [of _ "[]"]) (simp_all add: ds)
  have c: "\<not> is_domain_allowed ?cfg ''https://evil.example/''"
    by (simp add: is_domain_allowed_def ds)
  have p1: "is_domain_allowed ?cfg ''https://www.easydis.io/screen/1''"
    using a by (rule is_domain_allowed_iff_substring [THEN iffD2])
  have p2: "is_domain_allowed ?cfg ''https://evil.example/easydis.io''"
    using b by (rule is_domain_allowed_iff_substring [THEN iffD2])
  from p1 p2 c show ?thesis by (intro conjI)
qed

text \<open>
  Claim C10. When the allowed-domain list contains the empty string, the
  predicate is true for every URL. This is the case whenever the variable
  \<^verbatim>\<open>ALLOWED_DOMAINS\<close> is set to the empty string, because splitting the empty
  string at commas gives the list of the empty string.
\<close>

theorem empty_domain_allows_every_url:
  "([] \<in> set (ALLOWED_DOMAINS cfg) \<longrightarrow> is_domain_allowed cfg u) \<and>
   (env ''ALLOWED_DOMAINS'' = Some [] \<longrightarrow>
      ALLOWED_DOMAINS (load_settings env) = [[]] \<and> is_domain_allowed (load_settings env) u)"
proof -
  have a: "is_domain_allowed c v" if "[] \<in> set (ALLOWED_DOMAINS c)" for c v
  proof -
    have "py_in [] v" by (cases v) simp_all
    with that show ?thesis by (auto simp: is_domain_allowed_def domain_loop_iff)
  qed
  have b: "ALLOWED_DOMAINS (load_settings env) = [[]]" if "env ''ALLOWED_DOMAINS'' = Some []"
    using that by (simp add: load_settings_def getenv_def)
  show ?thesis using a b by simp
qed

theorem empty_domain_allows_every_url_witness:
  "ALLOWED_DOMAINS (load_settings [''ALLOWED_DOMAINS'' \<mapsto> '''']) = [[]] \<and>
   is_domain_allowed (load_settings [''ALLOWED_DOMAINS'' \<mapsto> '''']) ''https://evil.example/''"
  using empty_domain_allows_every_url
    [of "load_settings [''ALLOWED_DOMAINS'' \<mapsto> '''']" "''https://evil.example/''"
        "[''ALLOWED_DOMAINS'' \<mapsto> '''']"]
  by simp

section \<open>Claims about the authentication guard\<close>

text \<open>
  Claim C2, as stated, at a header that is present and empty. The header differs
  from the configured secret, and the guard answers 401, not 403.
\<close>

theorem verify_api_key_empty_header_counterexample:
  "[] \<noteq> API_KEY (load_settings Map.empty) \<and>
   verify_api_key (load_settings Map.empty) (Some []) =
     Inl (HTTPException 401 ''Missing API Key. Include X-API-Key header in your request.'')"
  by (simp add: verify_api_key_def load_settings_def getenv_def)

text \<open>
  Claim C2, amended. The guard fails with 401 when the header is absent or
  empty, fails with 403 when the header is not empty and differs from the
  configured secret, and otherwise returns the supplied key unchanged. The guard
  is a function of the settings and the header, so it has no other effect.
\<close>

theorem verify_api_key_cases:
  "(api_key = None \<or> api_key = Some [] \<longrightarrow>
      verify_api_key cfg api_key =
        Inl (HTTPException 401 ''Missing API Key. Include X-API-Key header in your request.'')) \<and>
   (\<forall>k. api_key = Some k \<and> k \<noteq> [] \<and> k \<noteq> API_KEY cfg \<longrightarrow>
      verify_api_key cfg api_key = Inl (HTTPException 403 ''Invalid API Key'')) \<and>
   (\<forall>k. api_key = Some k \<and> k \<noteq> [] \<and> k = API_KEY cfg \<longrightarrow>
      verify_api_key cfg api_key = Inr k)"
  by (auto simp: verify_api_key_def)

theorem verify_api_key_cases_witness:
  "verify_api_key (load_settings Map.empty) None =
     Inl (HTTPException 401 ''Missing API Key. Include X-API-Key header in your request.'') \<and>
   verify_api_key (load_settings Map.empty) (Some ''guess'') =
     Inl (HTTPException 403 ''Invalid API Key'') \<and>
   verify_api_key (load_settings Map.empty) (Some ''change-me-in-production'') =
     Inr ''change-me-in-production''"
proof -
  let ?cfg = "load_settings Map.empty"
  have k: "API_KEY ?cfg = ''change-me-in-production''"
    by (simp add: load_settings_def getenv_def)
  have a: "verify_api_key ?cfg None =
      Inl (HTTPException 401 ''Missing API Key. Include X-API-Key header in your request.'')"
    using verify_api_key_cases [of None ?cfg] by simp
  have b: "verify_api_key ?cfg (Some ''guess'') = Inl (HTTPException 403 ''Invalid API Key'')"
    using verify_api_key_cases [of "Some ''guess''" ?cfg, THEN conjunct2, THEN conjunct1,
        rule_format, of "''guess''"]
    by (simp add: k)
  have c: "verify_api_key ?cfg (Some ''change-me-in-production'') = Inr ''change-me-in-production''"
    using verify_api_key_cases [of "Some ''change-me-in-production''" ?cfg, THEN conjunct2,
        THEN conjunct2, rule_format, of "''change-me-in-production''"]
    by (simp add: k)
  from a b c show ?thesis by (intro conjI)
qed

section \<open>Claims about the HTTP layer\<close>

lemmas driver_call_defs =
  playwright_start_def chromium_launch_def browser_new_page_def page_goto_def
  page_wait_for_selector_def page_wait_for_timeout_def page_evaluate_def page_screenshot_def
  page_close_def log_call_def

lemmas capture_defs =
  capture_screenshot_def open_page_def drive_page_def initialize_def and_then_def
  failure_result_def

lemma int_field_out_of_bounds:
  "x < lo \<or> hi < x \<Longrightarrow> int_field name (Some x) dflt lo hi = Inl [name]"
  by (auto simp: int_field_def)

lemma int_field_cases:
  "(\<exists>x. int_field name v dflt lo hi = Inr x) \<or> int_field name v dflt lo hi = Inl [name]"
  by (auto simp: int_field_def split: option.splits)

text \<open>
  Claim C4. A request body whose width lies outside 800..3840, whose height lies
  outside 600..2160 or whose wait time lies outside 0..60000 is rejected by the
  validation of the request model. The request then ends in the rejection by the
  authentication guard or in the validation error, and the state, which includes
  the record of the calls, is unchanged: the capture routine is not entered and
  no driver call is made.
\<close>

theorem out_of_bounds_rejected_before_capture:
  assumes "(\<exists>w. raw_width b = Some w \<and> (w < 800 \<or> 3840 < w)) \<or>
           (\<exists>h. raw_height b = Some h \<and> (h < 600 \<or> 2160 < h)) \<or>
           (\<exists>t. raw_wait_time b = Some t \<and> (t < 0 \<or> 60000 < t))"
  shows "\<exists>errs. errs \<noteq> [] \<and> validate_request b = Inl errs \<and>
           (\<forall>cfg d key s.
              post_screenshot cfg d \<lparr>x_api_key = key, json_body = b\<rparr> s =
                (case verify_api_key cfg key of
                   Inl ex \<Rightarrow> Raised ex
                 | Inr k \<Rightarrow> RequestValidationError errs, s))"
proof -
  let ?w = "int_field ''width'' (raw_width b) 1920 800 3840"
  let ?h = "int_field ''height'' (raw_height b) 1080 600 2160"
  let ?t = "int_field ''wait_time'' (raw_wait_time b) 10000 0 60000"
  from assms have bad: "?w = Inl [''width''] \<or> ?h = Inl [''height''] \<or> ?t = Inl [''wait_time'']"
    by (auto simp: int_field_out_of_bounds)
  let ?u = "(case raw_url b of None \<Rightarrow> Inl [''url''] | Some s \<Rightarrow> Inr s) :: string list + string"
  let ?errs = "errors_of ?u @ errors_of ?w @ errors_of ?h @ errors_of ?t"
  from bad have v: "validate_request b = Inl ?errs"
    by (auto simp: validate_request_def Let_def split: sum.splits)
  from bad have ne: "?errs \<noteq> []"
    by (auto simp: errors_of_def)
  define errs where "errs = ?errs"
  from v ne have e: "errs \<noteq> []" "validate_request b = Inl errs"
    by (simp_all add: errs_def)
  have "post_screenshot cfg d \<lparr>x_api_key = key, json_body = b\<rparr> s =
          (case verify_api_key cfg key of
             Inl ex \<Rightarrow> Raised ex
           | Inr k \<Rightarrow> RequestValidationError errs, s)" for cfg d key s
    using e(2) by (simp add: post_screenshot_def split: sum.splits)
  with e show ?thesis by blast
qed


theorem out_of_bounds_rejected_before_capture_witness:
  "post_screenshot (load_settings Map.empty) example_driver
     \<lparr>x_api_key = Some ''change-me-in-production'',
      json_body = \<lparr>raw_url = Some ''https://www.easydis.io/'', raw_width = Some 799,
                    raw_height = None, raw_wait_time = None, raw_wait_for_selector = None,
                    raw_full_page = None\<rparr>\<rparr> new_service =
   (RequestValidationError [''width''], new_service)"
proof -
  let ?b = "\<lparr>raw_url = Some ''https://www.easydis.io/'', raw_width = Some 799,
              raw_height = None, raw_wait_time = None, raw_wait_for_selector = None,
              raw_full_page = None\<rparr>"
  have hyp: "(\<exists>w. raw_width ?b = Some w \<and> (w < 800 \<or> 3840 < w)) \<or>
             (\<exists>h. raw_height ?b = Some h \<and> (h < 600 \<or> 2160 < h)) \<or>
             (\<exists>t. raw_wait_time ?b = Some t \<and> (t < 0 \<or> 60000 < t))"
    by simp
  from out_of_bounds_rejected_before_capture [OF hyp]
  obtain errs where v: "validate_request ?b = Inl errs"
    and p: "\<And>cfg d key s. post_screenshot cfg d \<lparr>x_api_key = key, json_body = ?b\<rparr> s =
                (case verify_api_key cfg key of
                   Inl ex \<Rightarrow> Raised ex
                 | Inr k \<Rightarrow> RequestValidationError errs, s)"
    by blast
  have "validate_request ?b = Inl [''width'']"
    by (simp add: validate_request_def int_field_def errors_of_def)
  with v have errs: "errs = [''width'']" by simp
  have k: "verify_api_key (load_settings Map.empty) (Some ''change-me-in-production'') =
             Inr ''change-me-in-production''"
    by (simp add: verify_api_key_def load_settings_def getenv_def)
  show ?thesis
    by (simp only: p k errs sum.case)
qed

text \<open>
  Claim C1. The allow-list check is documented as a check of the domain of the
  URL, and the refusal reads \<^verbatim>\<open>Domain not allowed\<close>. At a URL whose host
  contains no allowed domain while its path does, a request with a valid
  credential is not refused: the check finds the domain in the path, the capture
  routine runs against the foreign host, and the response carries the image.
\<close>

theorem foreign_host_url_is_captured:
  "url_host ''https://evil.example/easydis.io'' = ''evil.example'' \<and>
   ALLOWED_DOMAINS (load_settings Map.empty) = [''easydis.io'', ''www.easydis.io''] \<and>
   \<not> py_in ''easydis.io'' ''evil.example'' \<and>
   \<not> py_in ''www.easydis.io'' ''evil.example'' \<and>
   verify_api_key (load_settings Map.empty) (Some ''change-me-in-production'') =
     Inr ''change-me-in-production'' \<and>
   fst (post_screenshot (load_settings Map.empty) example_driver
     \<lparr>x_api_key = Some ''change-me-in-production'',
      json_body = \<lparr>raw_url = Some ''https://evil.example/easydis.io'', raw_width = None,
                    raw_height = None, raw_wait_time = Some 0, raw_wait_for_selector = None,
                    raw_full_page = None\<rparr>\<rparr> new_service) =
     Response \<lparr>success = True, image_base64 = Some ''iVBORw=='',
       metadata = Some (SuccessMetadata 1500 4 ''https://evil.example/easydis.io''
                          (1920, 1080) None),
       error = None\<rparr> \<and>
   calls (snd (post_screenshot (load_settings Map.empty) example_driver
     \<lparr>x_api_key = Some ''change-me-in-production'',
      json_body = \<lparr>raw_url = Some ''https://evil.example/easydis.io'', raw_width = None,
                    raw_height = None, raw_wait_time = Some 0, raw_wait_for_selector = None,
                    raw_full_page = None\<rparr>\<rparr> new_service)) =
     [CaptureScreenshot ''https://evil.example/easydis.io'', Start, Launch, NewPage 1920 1080,
      Goto 2 ''https://evil.example/easydis.io'', Screenshot 2 False, PageClose 2]"
proof -
  let ?cfg = "load_settings Map.empty"
  have h: "url_host ''https://evil.example/easydis.io'' = ''evil.example''"
    by (simp add: url_host_def)
  have ds: "ALLOWED_DOMAINS ?cfg = [''easydis.io'', ''www.easydis.io'']"
    by (simp add: load_settings_def getenv_def)
  have n1: "\<not> py_in ''easydis.io'' ''evil.example''" by simp
  have n2: "\<not> py_in ''www.easydis.io'' ''evil.example''" by simp
  have k: "verify_api_key ?cfg (Some ''change-me-in-production'') = Inr ''change-me-in-production''"
    by (simp add: verify_api_key_def load_settings_def getenv_def)
  have a: "is_domain_allowed ?cfg ''https://evil.example/easydis.io''"
    by (simp add: is_domain_allowed_def ds)
  have c: "capture_screenshot example_driver ''https://evil.example/easydis.io'' 1920 1080 0 None
             False new_service =
           (Inr (Success ''iVBORw=='' (SuccessMetadata 1500 4 ''https://evil.example/easydis.io''
                   (1920, 1080) None)),
            \<lparr>playwright = Some 0, browser = Some 1, drivers_started = 1, browsers_launched = 1,
             open_pages = [], next_handle = 3,
             calls = [CaptureScreenshot ''https://evil.example/easydis.io'', Start, Launch,
                      NewPage 1920 1080, Goto 2 ''https://evil.example/easydis.io'',
                      Screenshot 2 False, PageClose 2]\<rparr>)"
    by (simp add: capture_defs driver_call_defs example_driver_def new_service_def
        elapsed_ms_def py_int_def b64_char_def)
  have p: "post_screenshot ?cfg example_driver
     \<lparr>x_api_key = Some ''change-me-in-production'',
      json_body = \<lparr>raw_url = Some ''https://evil.example/easydis.io'', raw_width = None,
                    raw_height = None, raw_wait_time = Some 0, raw_wait_for_selector = None,
                    raw_full_page = None\<rparr>\<rparr> new_service =
     (Response \<lparr>success = True, image_base64 = Some ''iVBORw=='',
       metadata = Some (SuccessMetadata 1500 4 ''https://evil.example/easydis.io''
                          (1920, 1080) None),
       error = None\<rparr>,
      \<lparr>playwright = Some 0, browser = Some 1, drivers_started = 1, browsers_launched = 1,
             open_pages = [], next_handle = 3,
             calls = [CaptureScreenshot ''https://evil.example/easydis.io'', Start, Launch,
                      NewPage 1920 1080, Goto 2 ''https://evil.example/easydis.io'',
                      Screenshot 2 False, PageClose 2]\<rparr>)"
    by (simp add: post_screenshot_def k validate_request_def int_field_def take_screenshot_def
        Let_def a c)
  show ?thesis
    by (simp only: h ds n1 n2 k p fst_conv snd_conv session.simps) simp
qed

text \<open>
  The refusal itself: when the credential and the body are valid and no
  configured domain occurs anywhere in the URL string, the answer is 403 with
  the allowed-domain list in the detail, and the state, which includes the
  record of the calls, is unchanged.
\<close>

lemma url_without_allowed_domain_forbidden:
  assumes "verify_api_key cfg (x_api_key rq) = Inr k"
    and "validate_request (json_body rq) = Inr request"
    and "\<not> (\<exists>dom \<in> set (ALLOWED_DOMAINS cfg). \<exists>pre post. url request = pre @ dom @ post)"
  shows "post_screenshot cfg d rq s =
           (Raised (HTTPException 403
              (''Domain not allowed. Allowed domains: '' @ py_repr_list (ALLOWED_DOMAINS cfg))), s)"
proof -
  from assms(3) have "\<not> is_domain_allowed cfg (url request)"
    by (simp add: is_domain_allowed_def domain_loop_iff py_in_iff)
  then show ?thesis
    using assms(1,2) by (simp add: post_screenshot_def take_screenshot_def)
qed

lemma url_without_allowed_domain_forbidden_example:
  "post_screenshot (load_settings Map.empty) example_driver
     \<lparr>x_api_key = Some ''change-me-in-production'',
      json_body = \<lparr>raw_url = Some ''https://evil.example/'', raw_width = None,
                    raw_height = None, raw_wait_time = None, raw_wait_for_selector = None,
                    raw_full_page = None\<rparr>\<rparr> new_service =
   (Raised (HTTPException 403
      ''Domain not allowed. Allowed domains: ['easydis.io', 'www.easydis.io']''), new_service)"
proof -
  let ?cfg = "load_settings Map.empty"
  let ?b = "\<lparr>raw_url = Some ''https://evil.example/'', raw_width = None,
              raw_height = None, raw_wait_time = None, raw_wait_for_selector = None,
              raw_full_page = None\<rparr>"
  let ?rq = "\<lparr>x_api_key = Some ''change-me-in-production'', json_body = ?b\<rparr>"
  let ?request = "\<lparr>url = ''https://evil.example/'', width = 1920, height = 1080,
                    wait_time = 10000, wait_for_selector = None, full_page = False\<rparr>"
  have ds: "ALLOWED_DOMAINS ?cfg = [''easydis.io'', ''www.easydis.io'']"
    by (simp add: load_settings_def getenv_def)
  have k: "verify_api_key ?cfg (x_api_key ?rq) = Inr ''change-me-in-production''"
    by (simp add: verify_api_key_def load_settings_def getenv_def)
  have v: "validate_request (json_body ?rq) = Inr ?request"
    by (simp add: validate_request_def int_field_def)
  have n0: "\<not> (\<exists>dom \<in> set (ALLOWED_DOMAINS ?cfg). py_in dom (url ?request))"
    by (simp add: ds)
  note n = n0 [unfolded py_in_iff]
  have r: "py_repr_list (ALLOWED_DOMAINS ?cfg) = ''['easydis.io', 'www.easydis.io']''"
    by (simp add: ds py_repr_list_def py_repr_str_def repr_char_def Let_def)
  show ?thesis
    using url_without_allowed_domain_forbidden [OF k v n, of example_driver new_service]
    by (simp only: r) simp
qed

section \<open>The capture routine and the first failure of the environment\<close>

lemma open_page_fails:
  "first_failure_before_page d s = Some e \<Longrightarrow>
     fst (open_page d w h s) = Inl e \<and> open_pages (snd (open_page d w h s)) = open_pages s"
  by (auto simp: first_failure_before_page_def open_page_def initialize_def and_then_def
      driver_call_defs split: option.splits if_splits)

lemma open_page_succeeds:
  "first_failure_before_page d s = None \<Longrightarrow>
     (case open_page d w h s of
        (Inl e, s1) \<Rightarrow> False
      | (Inr page, s1) \<Rightarrow>
          open_pages s1 = open_pages s @ [page] \<and> next_handle s \<le> page \<and> browser s1 \<noteq> None)"
  by (auto simp: first_failure_before_page_def open_page_def initialize_def and_then_def
      driver_call_defs split: option.splits if_splits)

lemma drive_page_open_pages:
  "open_pages (snd (drive_page d page u w h wt sel fp s)) = open_pages s"
  by (auto simp: drive_page_def and_then_def driver_call_defs Let_def
      split: option.splits sum.splits if_splits)

lemma drive_page_fails:
  "first_failure_on_page d u wt sel fp = Some e \<Longrightarrow>
     fst (drive_page d page u w h wt sel fp s) = Inl e"
  by (auto simp: first_failure_on_page_def drive_page_def and_then_def driver_call_defs Let_def
      split: option.splits sum.splits if_splits)

lemma drive_page_succeeds:
  "first_failure_on_page d u wt sel fp = None \<Longrightarrow>
     \<exists>bytes. screenshot_result d fp = Inr bytes \<and>
       fst (drive_page d page u w h wt sel fp s) =
         Inr (Success (b64encode bytes)
                (SuccessMetadata (elapsed_ms d) (length bytes) u (w, h)
                   (if truthy sel then Some (projr (evaluate_result d (count_script (the sel))))
                    else None)))"
  by (auto simp: first_failure_on_page_def drive_page_def and_then_def driver_call_defs Let_def
      split: option.splits sum.splits if_splits)


lemma first_failure_before_page_log_call [simp]:
  "first_failure_before_page d (log_call c s) = first_failure_before_page d s"
  by (simp add: first_failure_before_page_def log_call_def)

lemma log_call_fields [simp]:
  "open_pages (log_call c s) = open_pages s"
  "next_handle (log_call c s) = next_handle s"
  "playwright (log_call c s) = playwright s"
  "browser (log_call c s) = browser s"
  by (simp_all add: log_call_def)

lemma page_close_result:
  "page_close d page s =
     (case page_close_raises d of
        Some e \<Rightarrow> (Inl e, log_call (PageClose page) s)
      | None \<Rightarrow> (Inr (), (log_call (PageClose page) s)
                   \<lparr>open_pages := removeAll page (open_pages s)\<rparr>))"
  by (simp add: page_close_def log_call_def split: option.splits)

lemma capture_before_page:
  assumes "first_failure_before_page d s = Some e"
  shows "fst (capture_screenshot d u w h wt sel fp s) = Inr (failure_result d u e)"
    and "open_pages (snd (capture_screenshot d u w h wt sel fp s)) = open_pages s"
proof -
  let ?s0 = "log_call (CaptureScreenshot u) s"
  from assms have "first_failure_before_page d ?s0 = Some e" by simp
  from open_page_fails [OF this, of w h]
  have o: "fst (open_page d w h ?s0) = Inl e" "open_pages (snd (open_page d w h ?s0)) = open_pages s"
    by simp_all
  obtain r s1 where p: "open_page d w h ?s0 = (r, s1)" by (cases "open_page d w h ?s0")
  with o have "r = Inl e" "open_pages s1 = open_pages s" by simp_all
  with p show "fst (capture_screenshot d u w h wt sel fp s) = Inr (failure_result d u e)"
    and "open_pages (snd (capture_screenshot d u w h wt sel fp s)) = open_pages s"
    by (simp_all add: capture_screenshot_def)
qed

lemma capture_on_page:
  assumes "first_failure_before_page d s = None"
  shows "fst (capture_screenshot d u w h wt sel fp s) =
           (case page_close_raises d of
              Some e \<Rightarrow> Inl e
            | None \<Rightarrow>
                Inr (case first_failure_on_page d u wt sel fp of
                       Some e \<Rightarrow> failure_result d u e
                     | None \<Rightarrow>
                         Success (b64encode (projr (screenshot_result d fp)))
                           (SuccessMetadata (elapsed_ms d)
                              (length (projr (screenshot_result d fp))) u (w, h)
                              (if truthy sel
                               then Some (projr (evaluate_result d (count_script (the sel))))
                               else None))))"
    and "page_close_raises d = None \<Longrightarrow>
           set (open_pages (snd (capture_screenshot d u w h wt sel fp s))) \<subseteq> set (open_pages s)"
    and "page_close_raises d = None \<Longrightarrow> \<forall>p \<in> set (open_pages s). p < next_handle s \<Longrightarrow>
           open_pages (snd (capture_screenshot d u w h wt sel fp s)) = open_pages s"
proof -
  let ?s0 = "log_call (CaptureScreenshot u) s"
  from assms have "first_failure_before_page d ?s0 = None" by simp
  from open_page_succeeds [OF this, of w h]
  obtain page s1 where p: "open_page d w h ?s0 = (Inr page, s1)"
    and op: "open_pages s1 = open_pages s @ [page]" and fresh: "next_handle s \<le> page"
    by (auto split: prod.splits sum.splits)
  obtain r s2 where dp: "drive_page d page u w h wt sel fp s1 = (r, s2)"
    by (cases "drive_page d page u w h wt sel fp s1")
  from drive_page_open_pages [of d page u w h wt sel fp s1] dp op
  have op2: "open_pages s2 = open_pages s @ [page]" by simp
  have r: "r = (case first_failure_on_page d u wt sel fp of
                  Some e \<Rightarrow> Inl e
                | None \<Rightarrow>
                    Inr (Success (b64encode (projr (screenshot_result d fp)))
                           (SuccessMetadata (elapsed_ms d)
                              (length (projr (screenshot_result d fp))) u (w, h)
                              (if truthy sel
                               then Some (projr (evaluate_result d (count_script (the sel))))
                               else None))))"
  proof (cases "first_failure_on_page d u wt sel fp")
    case None
    from drive_page_succeeds [OF this, of page w h s1] dp None show ?thesis by auto
  next
    case (Some e)
    from drive_page_fails [OF this, of page w h s1] dp Some show ?thesis by simp
  qed
  show "fst (capture_screenshot d u w h wt sel fp s) =
           (case page_close_raises d of
              Some e \<Rightarrow> Inl e
            | None \<Rightarrow>
                Inr (case first_failure_on_page d u wt sel fp of
                       Some e \<Rightarrow> failure_result d u e
                     | None \<Rightarrow>
                         Success (b64encode (projr (screenshot_result d fp)))
                           (SuccessMetadata (elapsed_ms d)
                              (length (projr (screenshot_result d fp))) u (w, h)
                              (if truthy sel
                               then Some (projr (evaluate_result d (count_script (the sel))))
                               else None))))"
    by (simp add: capture_screenshot_def p dp page_close_result r split: option.splits)
  show "set (open_pages (snd (capture_screenshot d u w h wt sel fp s))) \<subseteq> set (open_pages s)"
    if "page_close_raises d = None"
    using that by (auto simp: capture_screenshot_def p dp page_close_result op2)
  show "open_pages (snd (capture_screenshot d u w h wt sel fp s)) = open_pages s"
    if "page_close_raises d = None" "\<forall>p \<in> set (open_pages s). p < next_handle s"
  proof -
    from that(2) fresh have "page \<notin> set (open_pages s)" by auto
    then have "removeAll page (open_pages s @ [page]) = open_pages s" by simp
    with that(1) show ?thesis
      by (simp add: capture_screenshot_def p dp page_close_result op2)
  qed
qed

lemma calls_log_call: "calls (log_call c s) = calls s @ [c]"
  by (simp add: log_call_def)

lemma capture_last_call:
  assumes "first_failure_before_page d s = None"
  shows "\<exists>page. last (calls (snd (capture_screenshot d u w h wt sel fp s))) = PageClose page"
proof -
  let ?s0 = "log_call (CaptureScreenshot u) s"
  from assms have "first_failure_before_page d ?s0 = None" by simp
  from open_page_succeeds [OF this, of w h]
  obtain page s1 where p: "open_page d w h ?s0 = (Inr page, s1)"
    by (auto split: prod.splits sum.splits)
  obtain r s2 where dp: "drive_page d page u w h wt sel fp s1 = (r, s2)"
    by (cases "drive_page d page u w h wt sel fp s1")
  have "last (calls (snd (capture_screenshot d u w h wt sel fp s))) = PageClose page"
    by (simp add: capture_screenshot_def p dp page_close_result calls_log_call
        split: option.splits)
  then show ?thesis ..
qed

lemmas example_defs =
  example_driver_def unreachable_host_driver_def selector_miss_driver_def close_fails_driver_def
  crashed_browser_driver_def   new_service_def busy_service_def

lemmas eval_defs = capture_defs driver_call_defs elapsed_ms_def py_int_def b64_char_def

section \<open>Claims about the browser session\<close>

lemma initialize_when_started: "playwright s \<noteq> None \<Longrightarrow> initialize d s = (Inr (), s)"
  by (cases "playwright s") (simp_all add: initialize_def)

lemma initialize_returns_started:
  "fst (initialize d s) = Inr () \<Longrightarrow> playwright (snd (initialize d s)) \<noteq> None"
  by (auto simp: initialize_def and_then_def driver_call_defs Let_def
      split: option.splits if_splits)

lemma initialize_twice_same_driver:
  "without_calls (snd (initialize d (snd (initialize d s)))) = without_calls (snd (initialize d s))"
  by (auto simp: initialize_def and_then_def driver_call_defs without_calls_def Let_def
      split: option.splits if_splits)

text \<open>
  Claim C9. \<open>initialize\<close> is idempotent. When the driver attribute is set, the
  call returns without a driver call and leaves the whole state unchanged,
  whatever the environment would do. After a call that has returned, a second
  call changes nothing, so no second driver or browser is started. And with the
  same behaviour of the environment at both calls, calling twice from any state
  leaves the same state as calling once, apart from the record of the attempted
  calls.
\<close>

theorem initialize_idempotent:
  "(playwright s \<noteq> None \<longrightarrow> initialize d s = (Inr (), s)) \<and>
   (fst (initialize d1 s) = Inr () \<longrightarrow>
      initialize d2 (snd (initialize d1 s)) = (Inr (), snd (initialize d1 s))) \<and>
   without_calls (snd (initialize d (snd (initialize d s)))) = without_calls (snd (initialize d s))"
  using initialize_when_started initialize_returns_started initialize_twice_same_driver
  by blast

theorem initialize_idempotent_witness:
  "snd (initialize example_driver new_service) =
     \<lparr>playwright = Some 0, browser = Some 1, drivers_started = 1, browsers_launched = 1,
      open_pages = [], next_handle = 2, calls = [Start, Launch]\<rparr> \<and>
   initialize example_driver (snd (initialize example_driver new_service)) =
     (Inr (), snd (initialize example_driver new_service))"
proof -
  have i: "initialize example_driver new_service =
      (Inr (), \<lparr>playwright = Some 0, browser = Some 1, drivers_started = 1,
                browsers_launched = 1, open_pages = [], next_handle = 2,
                calls = [Start, Launch]\<rparr>)"
    by (simp add: initialize_def and_then_def driver_call_defs example_driver_def new_service_def)
  then have r: "fst (initialize example_driver new_service) = Inr ()" by simp
  let ?s1 = "snd (initialize example_driver new_service)"
  from i have p: "playwright ?s1 \<noteq> None" by simp
  from initialize_idempotent [of new_service example_driver example_driver example_driver] r
  have a: "initialize example_driver ?s1 = (Inr (), ?s1)"
    by blast
  from initialize_idempotent [of ?s1 example_driver example_driver example_driver] p
  have "initialize example_driver ?s1 = (Inr (), ?s1)"
    by blast
  with a i show ?thesis by simp
qed

text \<open>
  Claim C8, as stated, at a session that was never started. The capture attempt
  surfaces no error at all: the routine initialises the session itself and
  returns a successful result.
\<close>

theorem never_started_session_captures_counterexample:
  "playwright new_service = None \<and> browser new_service = None \<and>
   fst (capture_screenshot example_driver ''https://www.easydis.io/'' 1920 1080 0 None False
          new_service) =
     Inr (Success ''iVBORw=='' (SuccessMetadata 1500 4 ''https://www.easydis.io/'' (1920, 1080)
            None))"
  by (simp add: capture_defs driver_call_defs example_driver_def new_service_def
      elapsed_ms_def py_int_def b64_char_def)

text \<open>
  Claim C8, amended. The only check of the session in the capture routine is the
  test of the browser attribute after \<open>initialize\<close>. When a driver is held and no
  browser (an earlier launch failed), the routine raises the generic
  \<^verbatim>\<open>Exception\<close> with the message \<^verbatim>\<open>Browser not initialized\<close>, without any driver
  call, and returns it as a failure result carrying that string. When the
  browser attribute is set and opening a page fails, as with a crashed browser,
  the failure result carries the message of the driver's exception. When the
  session was never started and the driver starts, the capture attempt launches
  the browser on demand.
\<close>

theorem browser_absent_generic_failure:
  "(playwright s \<noteq> None \<and> browser s = None \<longrightarrow>
      open_page d w h s = (Inl (Exception ''Browser not initialized''), s) \<and>
      capture_screenshot d u w h wt sel fp s =
        (Inr (Failure ''Browser not initialized'' (FailureMetadata (elapsed_ms d) u)),
         log_call (CaptureScreenshot u) s)) \<and>
   (playwright s \<noteq> None \<and> browser s \<noteq> None \<and> new_page_raises d = Some e \<longrightarrow>
      fst (capture_screenshot d u w h wt sel fp s) =
        Inr (Failure (str_exn e) (FailureMetadata (elapsed_ms d) u))) \<and>
   (playwright s = None \<and> start_raises d = None \<and> launch_raises d = None \<longrightarrow>
      browser (snd (capture_screenshot d u w h wt sel fp s)) \<noteq> None \<and>
      browsers_launched (snd (capture_screenshot d u w h wt sel fp s)) =
        Suc (browsers_launched s))"
proof (intro conjI impI)
  assume a: "playwright s \<noteq> None \<and> browser s = None"
  then show "open_page d w h s = (Inl (Exception ''Browser not initialized''), s)"
    by (auto simp: open_page_def initialize_def and_then_def)
  from a have "open_page d w h (log_call (CaptureScreenshot u) s) =
      (Inl (Exception ''Browser not initialized''), log_call (CaptureScreenshot u) s)"
    by (auto simp: open_page_def initialize_def and_then_def)
  then show "capture_screenshot d u w h wt sel fp s =
        (Inr (Failure ''Browser not initialized'' (FailureMetadata (elapsed_ms d) u)),
         log_call (CaptureScreenshot u) s)"
    by (simp add: capture_screenshot_def failure_result_def)
next
  assume "playwright s \<noteq> None \<and> browser s \<noteq> None \<and> new_page_raises d = Some e"
  then have "first_failure_before_page d s = Some e"
    by (auto simp: first_failure_before_page_def)
  from capture_before_page(1) [OF this]
  show "fst (capture_screenshot d u w h wt sel fp s) =
        Inr (Failure (str_exn e) (FailureMetadata (elapsed_ms d) u))"
    by (simp add: failure_result_def)
next
  assume a: "playwright s = None \<and> start_raises d = None \<and> launch_raises d = None"
  then show "browser (snd (capture_screenshot d u w h wt sel fp s)) \<noteq> None"
    by (auto simp: capture_defs driver_call_defs Let_def split: option.splits sum.splits prod.splits)
  from a show "browsers_launched (snd (capture_screenshot d u w h wt sel fp s)) =
        Suc (browsers_launched s)"
    by (auto simp: capture_defs driver_call_defs Let_def split: option.splits sum.splits prod.splits)
qed

theorem browser_absent_generic_failure_witness:
  "snd (initialize (example_driver\<lparr>launch_raises := Some (PlaywrightError ''Executable not found'')\<rparr>)
          new_service) =
     \<lparr>playwright = Some 0, browser = None, drivers_started = 1, browsers_launched = 0,
      open_pages = [], next_handle = 1, calls = [Start, Launch]\<rparr> \<and>
   capture_screenshot example_driver ''https://www.easydis.io/'' 1920 1080 0 None False
     \<lparr>playwright = Some 0, browser = None, drivers_started = 1, browsers_launched = 0,
      open_pages = [], next_handle = 1, calls = [Start, Launch]\<rparr> =
     (Inr (Failure ''Browser not initialized'' (FailureMetadata 1500 ''https://www.easydis.io/'')),
      \<lparr>playwright = Some 0, browser = None, drivers_started = 1, browsers_launched = 0,
       open_pages = [], next_handle = 1,
       calls = [Start, Launch, CaptureScreenshot ''https://www.easydis.io/'']\<rparr>) \<and>
   fst (capture_screenshot crashed_browser_driver ''https://www.easydis.io/'' 1920 1080 0 None
          False busy_service) =
     Inr (Failure ''Target page, context or browser has been closed''
            (FailureMetadata 1500 ''https://www.easydis.io/'')) \<and>
   browser (snd (capture_screenshot example_driver ''https://www.easydis.io/'' 1920 1080 0 None
                   False new_service)) \<noteq> None \<and>
   browsers_launched (snd (capture_screenshot example_driver ''https://www.easydis.io/'' 1920
                             1080 0 None False new_service)) = 1"
proof -
  let ?s = "\<lparr>playwright = Some 0, browser = None, drivers_started = 1, browsers_launched = 0,
             open_pages = [], next_handle = 1, calls = [Start, Launch]\<rparr>"
  let ?u = "''https://www.easydis.io/''"
  have i: "snd (initialize (example_driver\<lparr>launch_raises :=
                  Some (PlaywrightError ''Executable not found'')\<rparr>) new_service) = ?s"
    by (simp add: initialize_def and_then_def driver_call_defs example_defs)
  have h: "playwright ?s \<noteq> None \<and> browser ?s = None" by simp
  have t: "elapsed_ms example_driver = 1500" "elapsed_ms crashed_browser_driver = 1500"
    by (simp_all add: elapsed_ms_def py_int_def example_defs)
  from browser_absent_generic_failure [of ?s example_driver 1920 1080 ?u 0 None False] h
  have a: "capture_screenshot example_driver ?u 1920 1080 0 None False ?s =
        (Inr (Failure ''Browser not initialized''
                (FailureMetadata (elapsed_ms example_driver) ?u)),
         log_call (CaptureScreenshot ?u) ?s)"
    by blast
  have h2: "playwright busy_service \<noteq> None \<and> browser busy_service \<noteq> None \<and>
            new_page_raises crashed_browser_driver =
              Some (PlaywrightError ''Target page, context or browser has been closed'')"
    by (simp add: example_defs)
  from browser_absent_generic_failure [of busy_service crashed_browser_driver 1920 1080 ?u 0
      None False "PlaywrightError ''Target page, context or browser has been closed''"] h2
  have b: "fst (capture_screenshot crashed_browser_driver ?u 1920 1080 0 None False
                  busy_service) =
           Inr (Failure (str_exn (PlaywrightError
                           ''Target page, context or browser has been closed''))
                  (FailureMetadata (elapsed_ms crashed_browser_driver) ?u))"
    by blast
  have h3: "playwright new_service = None \<and> start_raises example_driver = None \<and>
            launch_raises example_driver = None"
    by (simp add: example_defs)
  from browser_absent_generic_failure [of new_service example_driver 1920 1080 ?u 0 None
      False] h3
  have c: "browser (snd (capture_screenshot example_driver ?u 1920 1080 0 None False
                           new_service)) \<noteq> None \<and>
           browsers_launched (snd (capture_screenshot example_driver ?u 1920 1080 0 None False
                                     new_service)) = Suc (browsers_launched new_service)"
    by blast
  have z: "browsers_launched new_service = 0" by (simp add: example_defs)
  from i a b c t z show ?thesis by (simp add: log_call_def)
qed

section \<open>Claims about the capture routine\<close>

text \<open>
  Claim C5, as stated, at a run whose navigation fails and whose closing of the
  page fails too. The exception of the \<^verbatim>\<open>finally\<close> clause leaves the routine,
  and no failure result is returned.
\<close>

theorem close_failure_escapes_counterexample:
  "goto_raises (unreachable_host_driver\<lparr>page_close_raises := Some (PlaywrightError ''Connection closed'')\<rparr>)
     ''https://down.easydis.io/'' = Some (PlaywrightError ''net::ERR_NAME_NOT_RESOLVED'') \<and>
   fst (capture_screenshot
          (unreachable_host_driver\<lparr>page_close_raises := Some (PlaywrightError ''Connection closed'')\<rparr>)
          ''https://down.easydis.io/'' 1920 1080 0 None False new_service) =
     Inl (PlaywrightError ''Connection closed'')"
  by (simp add: eval_defs example_defs)

text \<open>
  Claim C5, amended. When no page was opened, or closing the page does not
  raise, the routine returns a result. If a step of the run failed
  (initialisation, the browser check, opening the page, navigation, the fixed
  wait, counting the elements or the screenshot; encoding cannot fail), the
  result is the failure result with the message of the first such exception,
  the elapsed milliseconds and the requested URL, without an image. If no step
  failed, the result is a success.
\<close>

theorem capture_returns_failure_result:
  assumes "first_failure_before_page d s \<noteq> None \<or> page_close_raises d = None"
  shows "\<exists>r. fst (capture_screenshot d u w h wt sel fp s) = Inr r \<and>
           (\<forall>e. first_failure d s u wt sel fp = Some e \<longrightarrow>
              r = Failure (str_exn e) (FailureMetadata (elapsed_ms d) u) \<and>
              get_success r = False \<and> get_error r = Some (str_exn e) \<and>
              get_image_base64 r = None) \<and>
           (first_failure d s u wt sel fp = None \<longrightarrow> get_success r = True)"
proof (cases "first_failure_before_page d s")
  case (Some e)
  from capture_before_page(1) [OF this]
  have "fst (capture_screenshot d u w h wt sel fp s) = Inr (failure_result d u e)" .
  with Some show ?thesis
    by (simp add: first_failure_def failure_result_def)
next
  case None
  with assms have c: "page_close_raises d = None" by simp
  show ?thesis
  proof (cases "first_failure_on_page d u wt sel fp")
    case fNone: None
    from capture_on_page(1) [OF None, of u w h wt sel fp] c fNone None show ?thesis
      by (simp add: first_failure_def)
  next
    case (Some e)
    from capture_on_page(1) [OF None, of u w h wt sel fp] c Some None show ?thesis
      by (simp add: first_failure_def failure_result_def)
  qed
qed

theorem capture_returns_failure_result_witness:
  "fst (capture_screenshot unreachable_host_driver ''https://down.easydis.io/'' 1920 1080 0 None
          False new_service) =
     Inr (Failure ''net::ERR_NAME_NOT_RESOLVED'' (FailureMetadata 1500 ''https://down.easydis.io/''))"
proof -
  let ?u = "''https://down.easydis.io/''"
  have c: "first_failure_before_page unreachable_host_driver new_service \<noteq> None \<or>
           page_close_raises unreachable_host_driver = None"
    by (simp add: example_defs)
  have f: "first_failure unreachable_host_driver new_service ?u 0 None False =
             Some (PlaywrightError ''net::ERR_NAME_NOT_RESOLVED'')"
    by (simp add: first_failure_def first_failure_before_page_def first_failure_on_page_def
        example_defs)
  have t: "elapsed_ms unreachable_host_driver = 1500"
    by (simp add: elapsed_ms_def py_int_def example_defs)
  from capture_returns_failure_result [OF c, of ?u 1920 1080 0 None False] f
  have "fst (capture_screenshot unreachable_host_driver ?u 1920 1080 0 None False new_service) =
          Inr (Failure (str_exn (PlaywrightError ''net::ERR_NAME_NOT_RESOLVED''))
                 (FailureMetadata (elapsed_ms unreachable_host_driver) ?u))"
    by auto
  with t show ?thesis by simp
qed

text \<open>
  Claim C6, as stated, at two runs in which navigation, screenshot and encoding
  succeed. With the empty string as selector, the routine neither waits for the
  selector nor counts: the product count is null. With the selector \<^verbatim>\<open>.card\<close>
  and a failing close of the page, the routine raises instead of returning a
  success.
\<close>

theorem empty_selector_not_counted_counterexample:
  "capture_screenshot example_driver ''https://www.easydis.io/'' 1920 1080 0 (Some []) False
     new_service =
     (Inr (Success ''iVBORw=='' (SuccessMetadata 1500 4 ''https://www.easydis.io/'' (1920, 1080)
             None)),
      \<lparr>playwright = Some 0, browser = Some 1, drivers_started = 1, browsers_launched = 1,
       open_pages = [], next_handle = 3,
       calls = [CaptureScreenshot ''https://www.easydis.io/'', Start, Launch, NewPage 1920 1080,
                Goto 2 ''https://www.easydis.io/'', Screenshot 2 False, PageClose 2]\<rparr>) \<and>
   goto_raises close_fails_driver ''https://www.easydis.io/'' = None \<and>
   screenshot_result close_fails_driver False = Inr [137, 80, 78, 71] \<and>
   fst (capture_screenshot close_fails_driver ''https://www.easydis.io/'' 1920 1080 0
          (Some ''.card'') False new_service) = Inl (PlaywrightError ''Connection closed'')"
  by (simp add: eval_defs example_defs count_script_def)

text \<open>
  Claim C6, amended. In every run in which no step fails (initialisation,
  opening the page, navigation, the fixed wait, counting, the screenshot) and
  closing the page does not raise, the routine returns a success. Its product
  count is null when no selector or the empty selector is given; for a non-empty
  selector it is the number the page returns for the counting script of that
  selector. The outcome of the wait for the selector is not among the
  hypotheses: its failure is not fatal.
\<close>

theorem product_count_of_capture:
  assumes "first_failure d s u wt sel fp = None" and "page_close_raises d = None"
  shows "\<exists>img m. fst (capture_screenshot d u w h wt sel fp s) = Inr (Success img m) \<and>
           (sel = None \<or> sel = Some [] \<longrightarrow> product_count m = None) \<and>
           (\<forall>x. sel = Some x \<and> x \<noteq> [] \<longrightarrow>
              (\<exists>n. evaluate_result d (count_script x) = Inr n \<and> product_count m = Some n))"
proof -
  from assms(1) have b: "first_failure_before_page d s = None"
    and p: "first_failure_on_page d u wt sel fp = None"
    by (auto simp: first_failure_def split: option.splits)
  let ?m = "SuccessMetadata (elapsed_ms d) (length (projr (screenshot_result d fp))) u (w, h)
              (if truthy sel then Some (projr (evaluate_result d (count_script (the sel))))
               else None)"
  from capture_on_page(1) [OF b, of u w h wt sel fp] assms(2) p
  have r: "fst (capture_screenshot d u w h wt sel fp s) =
             Inr (Success (b64encode (projr (screenshot_result d fp))) ?m)"
    by simp
  have n: "sel = None \<or> sel = Some [] \<longrightarrow> product_count ?m = None"
    by auto
  have c: "\<exists>n. evaluate_result d (count_script x) = Inr n \<and> product_count ?m = Some n"
    if "sel = Some x \<and> x \<noteq> []" for x
    using that p
    by (auto simp: first_failure_on_page_def split: option.splits sum.splits if_splits)
  from r n c show ?thesis by blast
qed

theorem product_count_of_capture_witness:
  "get_success (projr (fst (capture_screenshot selector_miss_driver ''https://www.easydis.io/''
                              1920 1080 0 (Some ''.never'') False new_service))) \<and>
   product_count (get_metadata (projr (fst (capture_screenshot selector_miss_driver
                              ''https://www.easydis.io/'' 1920 1080 0 (Some ''.never'') False
                              new_service)))) = Some 0 \<and>
   product_count (get_metadata (projr (fst (capture_screenshot selector_miss_driver
                              ''https://www.easydis.io/'' 1920 1080 0 None False
                              new_service)))) = None"
proof -
  let ?d = selector_miss_driver
  let ?u = "''https://www.easydis.io/''"
  have w: "wait_for_selector_raises ?d ''.never'' \<noteq> None" by (simp add: example_defs)
  have c: "page_close_raises ?d = None" by (simp add: example_defs)
  have f1: "first_failure ?d new_service ?u 0 (Some ''.never'') False = None"
    by (simp add: first_failure_def first_failure_before_page_def first_failure_on_page_def
        example_defs)
  have f2: "first_failure ?d new_service ?u 0 None False = None"
    by (simp add: first_failure_def first_failure_before_page_def first_failure_on_page_def
        example_defs)
  have e: "evaluate_result ?d (count_script ''.never'') = Inr 0" by (simp add: example_defs)
  from product_count_of_capture [OF f1 c, of 1920 1080] e
  obtain img m where
    a: "fst (capture_screenshot ?d ?u 1920 1080 0 (Some ''.never'') False new_service) =
          Inr (Success img m)" and "product_count m = Some 0"
    by auto
  moreover from product_count_of_capture [OF f2 c, of 1920 1080]
  obtain img' m' where
    "fst (capture_screenshot ?d ?u 1920 1080 0 None False new_service) = Inr (Success img' m')"
    and "product_count m' = None"
    by auto
  ultimately show ?thesis by simp
qed

text \<open>
  Claim C7, as stated, at a run in which closing the page raises. Another page,
  with handle 2, is open before the call. The routine opens page 3, the
  \<^verbatim>\<open>finally\<close> clause calls its close, the call raises, and page 3 is still open
  when the routine is left.
\<close>

theorem close_failure_leaves_page_open_counterexample:
  "open_pages busy_service = [2] \<and>
   fst (capture_screenshot close_fails_driver ''https://www.easydis.io/'' 1920 1080 0 None False
          busy_service) = Inl (PlaywrightError ''Connection closed'') \<and>
   open_pages (snd (capture_screenshot close_fails_driver ''https://www.easydis.io/'' 1920 1080
                      0 None False busy_service)) = [2, 3] \<and>
   last (calls (snd (capture_screenshot close_fails_driver ''https://www.easydis.io/'' 1920 1080
                       0 None False busy_service))) = PageClose 3"
  by (simp add: eval_defs example_defs)

text \<open>
  Claim C7, amended. In every invocation in which no page was opened or closing
  the page does not raise, the routine returns a result, success or failure, and
  no page is open afterwards that was not open before the call; when the handles
  of the open pages are older than the next fresh handle, the open pages are
  exactly those before the call.
\<close>

theorem pages_closed_when_close_succeeds:
  assumes "first_failure_before_page d s \<noteq> None \<or> page_close_raises d = None"
  shows "(\<exists>r. fst (capture_screenshot d u w h wt sel fp s) = Inr r) \<and>
         set (open_pages (snd (capture_screenshot d u w h wt sel fp s))) \<subseteq> set (open_pages s) \<and>
         ((\<forall>p \<in> set (open_pages s). p < next_handle s) \<longrightarrow>
            open_pages (snd (capture_screenshot d u w h wt sel fp s)) = open_pages s)"
proof (cases "first_failure_before_page d s")
  case (Some e)
  from capture_before_page [OF this, of u w h wt sel fp] show ?thesis by simp
next
  case None
  with assms have c: "page_close_raises d = None" by simp
  note f = capture_on_page [OF None, of u w h wt sel fp]
  from f(1) c have "\<exists>r. fst (capture_screenshot d u w h wt sel fp s) = Inr r" by simp
  with f(2,3) c show ?thesis by auto
qed

theorem pages_closed_when_close_succeeds_witness:
  "open_pages busy_service = [2] \<and>
   fst (capture_screenshot example_driver ''https://www.easydis.io/'' 1920 1080 0 None False
          busy_service) =
     Inr (Success ''iVBORw=='' (SuccessMetadata 1500 4 ''https://www.easydis.io/'' (1920, 1080)
            None)) \<and>
   open_pages (snd (capture_screenshot example_driver ''https://www.easydis.io/'' 1920 1080 0
                      None False busy_service)) = [2] \<and>
   fst (capture_screenshot unreachable_host_driver ''https://down.easydis.io/'' 1920 1080 0 None
          False busy_service) =
     Inr (Failure ''net::ERR_NAME_NOT_RESOLVED''
            (FailureMetadata 1500 ''https://down.easydis.io/'')) \<and>
   open_pages (snd (capture_screenshot unreachable_host_driver ''https://down.easydis.io/'' 1920
                      1080 0 None False busy_service)) = [2]"
proof -
  have o: "open_pages busy_service = [2]" by (simp add: example_defs)
  have fresh: "\<forall>p \<in> set (open_pages busy_service). p < next_handle busy_service"
    by (simp add: example_defs)
  have c1: "first_failure_before_page example_driver busy_service \<noteq> None \<or>
            page_close_raises example_driver = None"
    by (simp add: example_defs)
  have c2: "first_failure_before_page unreachable_host_driver busy_service \<noteq> None \<or>
            page_close_raises unreachable_host_driver = None"
    by (simp add: example_defs)
  have r1: "fst (capture_screenshot example_driver ''https://www.easydis.io/'' 1920 1080 0
                   None False busy_service) =
              Inr (Success ''iVBORw=='' (SuccessMetadata 1500 4 ''https://www.easydis.io/''
                     (1920, 1080) None))"
    by (simp add: eval_defs example_defs)
  have r2: "fst (capture_screenshot unreachable_host_driver ''https://down.easydis.io/'' 1920
                   1080 0 None False busy_service) =
              Inr (Failure ''net::ERR_NAME_NOT_RESOLVED''
                     (FailureMetadata 1500 ''https://down.easydis.io/''))"
    by (simp add: eval_defs example_defs)
  from pages_closed_when_close_succeeds [OF c1, of "''https://www.easydis.io/''" 1920 1080 0
      None False] fresh
  have a: "open_pages (snd (capture_screenshot example_driver ''https://www.easydis.io/'' 1920
                              1080 0 None False busy_service)) = open_pages busy_service"
    by blast
  from pages_closed_when_close_succeeds [OF c2, of "''https://down.easydis.io/''" 1920 1080 0
      None False] fresh
  have b: "open_pages (snd (capture_screenshot unreachable_host_driver
             ''https://down.easydis.io/'' 1920 1080 0 None False busy_service)) =
           open_pages busy_service"
    by blast
  from a b o r1 r2 show ?thesis by simp
qed

end
